theory Spec2Isabelle
  imports Main "HOL-Library.Word" "HOL-Library.Sublist"
begin

section \<open>simple\_user\_data.c: parsing and printing a three-field record\<close>

text \<open>
  The program (\<^verbatim>\<open>src/resources/bins/simple_user_data.c\<close>) parses its command line into a
  \<^verbatim>\<open>struct args\<close> and prints it. The embedding follows the C text statement by
  statement. What C does beyond returning values is made explicit:
  \<^item> standard output is a string that every function takes and gives back extended;
  \<^item> \<^verbatim>\<open>exit(1)\<close>, and the \<^verbatim>\<open>return 0\<close> of \<^verbatim>\<open>main\<close>, end the process with that output and
    a status;
  \<^item> handing a null pointer to \<^verbatim>\<open>strlen\<close>, \<^verbatim>\<open>sscanf\<close> or \<^verbatim>\<open>[0]\<close>, and indexing beyond the
    pointer array, have no defined behaviour in C; the model stops there with a fault
    that records which element of \<^verbatim>\<open>argv\<close> was used;
  \<^item> the contents of the uninitialised local \<^verbatim>\<open>struct args args\<close> are a parameter.
\<close>

subsection \<open>Data\<close>

text \<open>
  \<^verbatim>\<open>enum command { OP1, OP2, OP3, OP4 }\<close>. A C enumeration is an integer type and its
  enumerators are the constants 0 to 3; an object of the type can hold other integers,
  which is what the \<^verbatim>\<open>default\<close> branch of \<^verbatim>\<open>print_arg\<close> looks for.
\<close>

type_synonym command = int

definition OP1 :: command where "OP1 = 0"
definition OP2 :: command where "OP2 = 1"
definition OP3 :: command where "OP3 = 2"
definition OP4 :: command where "OP4 = 3"

text \<open>
  \<^verbatim>\<open>struct args { int value; char sub_value; enum command cmd; }\<close>; \<^verbatim>\<open>int\<close> has 32 bits.
  The field name \<open>value\<close> is written in quotes where it is declared, being a word of the
  theory language.
\<close>

record args =
  "value" :: "32 word"
  sub_value :: char
  cmd :: command

datatype fault = Null_Deref nat | Out_Of_Array nat

text \<open>How the process ended: the text written to standard output, and the exit status or
  the fault.\<close>

datatype outcome = Exit string int | Fault string fault

fun stdout_of :: "outcome \<Rightarrow> string" where
  "stdout_of (Exit out st) = out"
| "stdout_of (Fault out f) = out"

fun exit_status :: "outcome \<Rightarrow> int option" where
  "exit_status (Exit out st) = Some st"
| "exit_status (Fault out f) = None"

text \<open>What a function has written when it returned or when it ended the process.\<close>

fun written :: "outcome + 'a \<times> string \<Rightarrow> string" where
  "written (Inl e) = stdout_of e"
| "written (Inr (a, out)) = out"

subsection \<open>The C library functions the program calls\<close>

text \<open>
  A C string is the bytes before the first NUL. \<^verbatim>\<open>strlen\<close> counts them, and \<^verbatim>\<open>s[0]\<close> of
  the empty string is the terminating NUL itself.
\<close>

definition strlen :: "string \<Rightarrow> nat" where
  "strlen s = length (takeWhile (\<lambda>c. c \<noteq> CHR 0x00) s)"

definition first_char :: "string \<Rightarrow> char" where
  "first_char s = (case s of [] \<Rightarrow> CHR 0x00 | c # cs \<Rightarrow> c)"

definition isspace :: "char \<Rightarrow> bool" where
  "isspace c = (c \<in> set [CHR '' '', CHR 0x09, CHR 0x0A, CHR 0x0B, CHR 0x0C, CHR 0x0D])"

definition isdigit :: "char \<Rightarrow> bool" where
  "isdigit c = (c \<in> set ''0123456789'')"

definition digit_val :: "char \<Rightarrow> int" where
  "digit_val c = of_char c - 48"

text \<open>
  The conversions \<^verbatim>\<open>%d\<close> and \<^verbatim>\<open>%ld\<close> of \<^verbatim>\<open>sscanf\<close> skip white space, then take an optional
  sign and the longest run of decimal digits (the subject sequence of \<^verbatim>\<open>strtol\<close> in base
  10). With no digit there the conversion fails and nothing is stored: \<open>None\<close>.
\<close>

definition scan_decimal :: "string \<Rightarrow> int option" where
  "scan_decimal s =
     (let s1 = dropWhile isspace s;
          neg = (s1 \<noteq> [] \<and> hd s1 = CHR ''-'');
          s2 = (if s1 \<noteq> [] \<and> (hd s1 = CHR ''-'' \<or> hd s1 = CHR ''+'') then tl s1 else s1);
          ds = takeWhile isdigit s2;
          n = foldl (\<lambda>acc c. 10 * acc + digit_val c) 0 ds
      in if ds = [] then None else Some (if neg then - n else n))"

text \<open>
  A number that the target type cannot hold has no defined result in ISO C. The model
  follows the common LP64 library: the number is saturated at the bounds of \<^verbatim>\<open>long\<close>
  (64 bits), and the store into an \<^verbatim>\<open>int\<close> keeps the low 32 bits.
\<close>

definition sscanf_ld :: "string \<Rightarrow> 64 word option" where
  "sscanf_ld s = map_option (\<lambda>n. word_of_int (max (- (2 ^ 63)) (min (2 ^ 63 - 1) n))) (scan_decimal s)"

definition sscanf_d :: "string \<Rightarrow> 32 word option" where
  "sscanf_d s = map_option (\<lambda>w. ucast w) (sscanf_ld s)"

text \<open>\<^verbatim>\<open>printf("%d", n)\<close>: the decimal digits of \<open>n\<close>, after a minus sign when it is negative.\<close>

fun show_nat :: "nat \<Rightarrow> string" where
  "show_nat n = (if n < 10 then [''0123456789'' ! n]
                 else show_nat (n div 10) @ [''0123456789'' ! (n mod 10)])"

declare show_nat.simps [simp del]

definition show_int :: "int \<Rightarrow> string" where
  "show_int i = (if i < 0 then CHR ''-'' # show_nat (nat (- i)) else show_nat (nat i))"

text \<open>
  A \<^verbatim>\<open>char\<close> passed to \<^verbatim>\<open>printf\<close> is promoted to \<^verbatim>\<open>int\<close>. Whether plain \<^verbatim>\<open>char\<close> is signed
  is the implementation's choice, so it is the parameter \<open>sg\<close>.
\<close>

definition char_to_int :: "bool \<Rightarrow> char \<Rightarrow> int" where
  "char_to_int sg c = (if sg \<and> 128 \<le> (of_char c :: int) then of_char c - 256 else of_char c)"

subsection \<open>print\_arg\<close>

text \<open>
  Lines 18 to 40. The function gets a pointer to the record and writes to standard output;
  the state is the record pointed to and the output so far, and a normal return gives both
  back. The \<^verbatim>\<open>default\<close> branch prints and ends the process.
\<close>

definition print_arg :: "bool \<Rightarrow> args \<times> string \<Rightarrow> outcome + args \<times> string" where
  "print_arg sg s =
     (let (a, out) = s;
          out1 = (if value a \<noteq> 0 then out @ ''value: '' @ show_int (sint (value a)) else out);
          out2 = out1 @ ''sub_value '' @ show_int (char_to_int sg (sub_value a))
      in if cmd a = OP1 then Inr (a, out2 @ ''OP1'')
         else if cmd a = OP2 then Inr (a, out2 @ ''OP2'')
         else if cmd a = OP3 then Inr (a, out2 @ ''OP3'')
         else if cmd a = OP4 then Inr (a, out2 @ ''OP4'')
         else Inl (Exit (out2 @ ''INVALID'') 1))"

subsection \<open>parse\_arg\<close>

text \<open>
  \<^verbatim>\<open>argv\<close> is an array of pointers to strings; \<open>None\<close> is the null pointer. Every element
  the program reads is handed at once to a function that reads the string, so the read of
  element \<open>i\<close> gives the string, or the fault.
\<close>

definition argv_at :: "string option list \<Rightarrow> nat \<Rightarrow> string \<Rightarrow> outcome + string" where
  "argv_at argv i out =
     (if length argv \<le> i then Inl (Fault out (Out_Of_Array i))
      else case argv ! i of
             None \<Rightarrow> Inl (Fault out (Null_Deref i))
           | Some s \<Rightarrow> Inr s)"

text \<open>
  Lines 47 to 53: \<^verbatim>\<open>counter = 1\<close>; with four elements the first argument is scanned into
  \<^verbatim>\<open>args.value\<close> (left as it was when the scan fails) and the counter moves on; otherwise
  \<^verbatim>\<open>args.value = 0\<close>.
\<close>

definition parse_arg_value ::
    "int \<Rightarrow> string option list \<Rightarrow> args \<times> string \<Rightarrow> outcome + args \<times> nat \<times> string" where
  "parse_arg_value argc argv s =
     (let (a, out) = s; counter = 1
      in if argc = 4 then
           (case argv_at argv counter out of
              Inl e \<Rightarrow> Inl e
            | Inr tok \<Rightarrow>
                Inr ((case sscanf_d tok of None \<Rightarrow> a | Some v \<Rightarrow> a\<lparr>value := v\<rparr>),
                     counter + 1, out))
         else Inr (a\<lparr>value := 0\<rparr>, counter, out))"

text \<open>
  Lines 54 to 59: \<^verbatim>\<open>sub_value = argv[counter++]\<close>, the length check on it, then
  \<^verbatim>\<open>args.sub_value = argv[counter++][0]\<close>, which indexes \<^verbatim>\<open>argv\<close> a second time.
\<close>

definition parse_arg_sub_value ::
    "string option list \<Rightarrow> args \<times> nat \<times> string \<Rightarrow> outcome + args \<times> nat \<times> string" where
  "parse_arg_sub_value argv s =
     (let (a, counter, out) = s
      in case argv_at argv counter out of
           Inl e \<Rightarrow> Inl e
         | Inr sub_value_tok \<Rightarrow>
             if strlen sub_value_tok \<noteq> 1
             then Inl (Exit (out @ ''arg sub_value need to be size 1'') 1)
             else (case argv_at argv (counter + 1) out of
                     Inl e \<Rightarrow> Inl e
                   | Inr tok \<Rightarrow> Inr (a\<lparr>sub_value := first_char tok\<rparr>, counter + 2, out)))"

text \<open>
  Lines 61 to 82: \<^verbatim>\<open>cmd_raw = argv[counter++]\<close>, \<^verbatim>\<open>long cmd = 0\<close>, the scan into \<^verbatim>\<open>cmd\<close>
  (which keeps the 0 when the scan fails) and the \<^verbatim>\<open>switch\<close>.
\<close>

definition parse_arg_cmd ::
    "string option list \<Rightarrow> args \<times> nat \<times> string \<Rightarrow> outcome + args \<times> string" where
  "parse_arg_cmd argv s =
     (let (a, counter, out) = s
      in case argv_at argv counter out of
           Inl e \<Rightarrow> Inl e
         | Inr cmd_raw \<Rightarrow>
             (let cmd_l = (case sscanf_ld cmd_raw of None \<Rightarrow> 0 | Some n \<Rightarrow> n)
              in if cmd_l = 0 then Inr (a\<lparr>cmd := OP1\<rparr>, out)
                 else if cmd_l = 1 then Inr (a\<lparr>cmd := OP2\<rparr>, out)
                 else if cmd_l = 2 then Inr (a\<lparr>cmd := OP3\<rparr>, out)
                 else if cmd_l = 3 then Inr (a\<lparr>cmd := OP4\<rparr>, out)
                 else Inl (Exit (out @ ''Invalid cmd'') 1)))"

text \<open>Lines 42 to 83: the arity check, then the three steps. \<open>a0\<close> is what the
  uninitialised \<^verbatim>\<open>struct args args\<close> happens to hold.\<close>

definition parse_arg ::
    "args \<Rightarrow> int \<Rightarrow> string option list \<Rightarrow> string \<Rightarrow> outcome + args \<times> string" where
  "parse_arg a0 argc argv out =
     (if argc \<noteq> 3 \<and> argc \<noteq> 4 then Inl (Exit (out @ ''Need 2 or 3 args'') 1)
      else case parse_arg_value argc argv (a0, out) of
             Inl e \<Rightarrow> Inl e
           | Inr s1 \<Rightarrow>
               (case parse_arg_sub_value argv s1 of
                  Inl e \<Rightarrow> Inl e
                | Inr s2 \<Rightarrow> parse_arg_cmd argv s2))"

subsection \<open>main\<close>

text \<open>Lines 85 to 90. Standard output is empty when the program starts.\<close>

definition main :: "bool \<Rightarrow> args \<Rightarrow> int \<Rightarrow> string option list \<Rightarrow> outcome" where
  "main sg a0 argc argv =
     (case parse_arg a0 argc argv [] of
        Inl e \<Rightarrow> e
      | Inr s \<Rightarrow>
          (case print_arg sg s of
             Inl e \<Rightarrow> e
           | Inr (a, out) \<Rightarrow> Exit out 0))"

text \<open>
  The hosted environment calls \<^verbatim>\<open>main\<close> with \<^verbatim>\<open>argc\<close> the number of strings, the program
  name first, and \<^verbatim>\<open>argv[argc]\<close> a null pointer (ISO C 5.1.2.2.1).
\<close>

definition std_argv :: "string list \<Rightarrow> string option list" where
  "std_argv toks = map Some toks @ [None]"

definition run :: "bool \<Rightarrow> args \<Rightarrow> string list \<Rightarrow> outcome" where
  "run sg a0 toks = main sg a0 (int (length toks)) (std_argv toks)"

section \<open>Properties\<close>

subsection \<open>Reading the argument vector of the hosted environment\<close>

lemma argv_at_std: "i < length toks \<Longrightarrow> argv_at (std_argv toks) i out = Inr (toks ! i)"
  by (simp add: argv_at_def std_argv_def nth_append)

lemma argv_at_std_end:
  "argv_at (std_argv toks) (length toks) out = Inl (Fault out (Null_Deref (length toks)))"
  by (simp add: argv_at_def std_argv_def nth_append)

subsection \<open>The characters of a printed number\<close>

lemma digit_nth: "k < 10 \<Longrightarrow> ''0123456789'' ! k \<in> set ''0123456789''"
  by (rule nth_mem) simp

lemma show_nat_digits: "set (show_nat n) \<subseteq> set ''0123456789''"
proof (induction n rule: show_nat.induct)
  case (1 n)
  show ?case
  proof (cases "n < 10")
    case True
    then show ?thesis using digit_nth [of n] by (subst show_nat.simps) simp
  next
    case False
    have "n mod 10 < 10" by simp
    with False 1 digit_nth [of "n mod 10"] show ?thesis
      by (subst show_nat.simps) simp
  qed
qed

lemma show_int_no_colon: "CHR '':'' \<notin> set (show_int i)"
  using show_nat_digits [of "nat i"] show_nat_digits [of "nat (- i)"]
  by (auto simp: show_int_def)

subsection \<open>The steps of parse\_arg\<close>

lemma parse_arg_value_3:
  "parse_arg_value 3 argv (a, out) = Inr (a\<lparr>value := 0\<rparr>, 1, out)"
  by (simp add: parse_arg_value_def)

lemma parse_arg_value_4:
  assumes "argv_at argv 1 out = Inr t"
  shows "parse_arg_value 4 argv (a, out)
           = Inr ((case sscanf_d t of None \<Rightarrow> a | Some v \<Rightarrow> a\<lparr>value := v\<rparr>), 2, out)"
  using assms by (simp add: parse_arg_value_def)

lemma parse_arg_sub_value_bad:
  assumes "argv_at argv c out = Inr t" and "strlen t \<noteq> 1"
  shows "parse_arg_sub_value argv (a, c, out)
           = Inl (Exit (out @ ''arg sub_value need to be size 1'') 1)"
  using assms by (simp add: parse_arg_sub_value_def)

text \<open>The character stored is the first one of the element after the one that was
  measured.\<close>

lemma parse_arg_sub_value_ok:
  assumes "argv_at argv c out = Inr t" and "strlen t = 1"
      and "argv_at argv c1 out = Inr t'" and "c1 = c + 1" and "c2 = c + 2"
  shows "parse_arg_sub_value argv (a, c, out)
           = Inr (a\<lparr>sub_value := first_char t'\<rparr>, c2, out)"
  using assms by (simp add: parse_arg_sub_value_def)

lemma parse_arg_cmd_fault:
  assumes "argv_at argv c out = Inl e"
  shows "parse_arg_cmd argv (a, c, out) = Inl e"
  using assms by (simp add: parse_arg_cmd_def)

lemma std_argv_3:
  assumes "length toks = 3"
  shows "argv_at (std_argv toks) 1 out = Inr (toks ! 1)"
    and "argv_at (std_argv toks) 2 out = Inr (toks ! 2)"
    and "argv_at (std_argv toks) 3 out = Inl (Fault out (Null_Deref 3))"
  using assms argv_at_std [of 1 toks out] argv_at_std [of 2 toks out]
    argv_at_std_end [of toks out]
  by simp_all

lemma std_argv_4:
  assumes "length toks = 4"
  shows "argv_at (std_argv toks) 1 out = Inr (toks ! 1)"
    and "argv_at (std_argv toks) 2 out = Inr (toks ! 2)"
    and "argv_at (std_argv toks) 3 out = Inr (toks ! 3)"
    and "argv_at (std_argv toks) 4 out = Inl (Fault out (Null_Deref 4))"
  using assms argv_at_std [of 1 toks out] argv_at_std [of 2 toks out]
    argv_at_std [of 3 toks out] argv_at_std_end [of toks out]
  by simp_all

subsection \<open>What print\_arg writes\<close>

lemma written_print_arg:
  "written (print_arg sg (a, out)) =
     out @ (if value a \<noteq> 0 then ''value: '' @ show_int (sint (value a)) else [])
         @ ''sub_value '' @ show_int (char_to_int sg (sub_value a))
         @ (if cmd a = OP1 then ''OP1'' else if cmd a = OP2 then ''OP2''
            else if cmd a = OP3 then ''OP3'' else if cmd a = OP4 then ''OP4'' else ''INVALID'')"
  by (simp add: print_arg_def Let_def)

lemma colon_in_value_segment: "sublist ''value: '' xs \<Longrightarrow> CHR '':'' \<in> set xs"
  using set_mono_sublist [of "''value: ''" xs] by auto

subsection \<open>Two arguments after the program name\<close>

text \<open>With \<^verbatim>\<open>argc = 3\<close>: what \<^verbatim>\<open>parse_arg\<close> returns and what it has written when it ends the
  process, for every pointer array; then what the whole program writes.\<close>

lemma parse_arg_3_returns:
  assumes "parse_arg a0 3 argv out = Inr (a, out')"
  shows "value a = 0 \<and> out' = out"
  using assms
  by (auto simp: parse_arg_def parse_arg_value_def parse_arg_sub_value_def parse_arg_cmd_def
      Let_def split: sum.splits if_splits)

lemma parse_arg_3_ends:
  assumes "parse_arg a0 3 argv out = Inl e"
  shows "stdout_of e = out \<or> stdout_of e = out @ ''arg sub_value need to be size 1''
       \<or> stdout_of e = out @ ''Invalid cmd''"
  using assms
  by (auto simp: parse_arg_def parse_arg_value_def parse_arg_sub_value_def parse_arg_cmd_def
      argv_at_def Let_def split: sum.splits if_splits option.splits)

lemma main_3_no_colon: "CHR '':'' \<notin> set (stdout_of (main sg a0 3 argv))"
proof (cases "parse_arg a0 3 argv []")
  case (Inl e)
  from parse_arg_3_ends [OF Inl] have "CHR '':'' \<notin> set (stdout_of e)" by auto
  with Inl show ?thesis by (simp add: main_def)
next
  case (Inr s)
  obtain a out' where s: "s = (a, out')" by (cases s)
  from parse_arg_3_returns [OF Inr [unfolded s]] have z: "value a = 0" and o: "out' = []"
    by simp_all
  have "stdout_of (main sg a0 3 argv) = written (print_arg sg (a, []))"
    using Inr s o by (auto simp: main_def split: sum.splits)
  also have "CHR '':'' \<notin> set \<dots>"
    using z show_int_no_colon [of "char_to_int sg (sub_value a)"]
    by (simp add: written_print_arg)
  finally show ?thesis .
qed

subsection \<open>The character stored in sub\_value\<close>

text \<open>
  Claim C1 says that the field \<^verbatim>\<open>sub_value\<close> gets the character of the token whose length
  was checked. The code checks \<^verbatim>\<open>sub_value = argv[counter++]\<close> and then stores
  \<^verbatim>\<open>argv[counter++][0]\<close>, the first character of the next element. With the arguments
  \<^verbatim>\<open>a 1\<close> the step at lines 54 to 59 stores the character \<^verbatim>\<open>1\<close> of the command token, not
  \<^verbatim>\<open>a\<close>, and leaves the counter at 3, where \<^verbatim>\<open>argv\<close> holds the null pointer: the program
  ends in the fault. A call of \<^verbatim>\<open>parse_arg\<close> on a pointer array that goes on beyond \<^verbatim>\<open>argc\<close>
  returns a record, and its \<^verbatim>\<open>sub_value\<close> is \<^verbatim>\<open>b\<close>, the token after the checked \<^verbatim>\<open>a\<close>.
\<close>

theorem sub_value_from_next_token:
  "parse_arg_sub_value (std_argv [''prog'', ''a'', ''1'']) (a, 1, out)
     = Inr (a\<lparr>sub_value := CHR ''1''\<rparr>, 3, out)
   \<and> run sg a0 [''prog'', ''a'', ''1''] = Fault [] (Null_Deref 3)
   \<and> parse_arg a0 3 [Some ''prog'', Some ''a'', Some ''b'', Some ''0''] out
       = Inr (a0\<lparr>value := 0, sub_value := CHR ''b'', cmd := OP1\<rparr>, out)"
  by (simp add: run_def main_def parse_arg_def parse_arg_value_def parse_arg_sub_value_def
      parse_arg_cmd_def std_argv_def argv_at_def strlen_def first_char_def
      sscanf_ld_def scan_decimal_def isspace_def isdigit_def digit_val_def)

subsection \<open>The command label\<close>

text \<open>
  Claim C2, as amended. For every record whose \<^verbatim>\<open>cmd\<close> is one of the four enumerators,
  \<^verbatim>\<open>print_arg\<close> returns normally with the record as it was, and has written, after what
  standard output held: the value segment when \<^verbatim>\<open>value\<close> is not 0, then \<^verbatim>\<open>sub_value\<close> and
  the character's number, then the enumerator's own name as the label: \<^verbatim>\<open>OP1\<close>, \<^verbatim>\<open>OP2\<close>,
  \<^verbatim>\<open>OP3\<close> or \<^verbatim>\<open>OP4\<close>.
\<close>

theorem print_arg_label:
  assumes "cmd a = OP1 \<or> cmd a = OP2 \<or> cmd a = OP3 \<or> cmd a = OP4"
  shows "print_arg sg (a, out) =
           Inr (a, out @ (if value a \<noteq> 0 then ''value: '' @ show_int (sint (value a)) else [])
                       @ ''sub_value '' @ show_int (char_to_int sg (sub_value a))
                       @ (if cmd a = OP1 then ''OP1'' else if cmd a = OP2 then ''OP2''
                          else if cmd a = OP3 then ''OP3'' else ''OP4''))"
  using assms by (auto simp: print_arg_def Let_def)

theorem print_arg_label_witness:
  "print_arg True (\<lparr>value = 0, sub_value = CHR ''a'', cmd = OP3\<rparr>, [])
     = Inr (\<lparr>value = 0, sub_value = CHR ''a'', cmd = OP3\<rparr>, ''sub_value 97OP3'')"
  using print_arg_label [of "\<lparr>value = 0, sub_value = CHR ''a'', cmd = OP3\<rparr>" True "[]"]
  by (simp add: OP1_def OP2_def OP3_def show_int_def char_to_int_def show_nat.simps)

text \<open>The labels \<^verbatim>\<open>First\<close> to \<^verbatim>\<open>Fourth\<close> are not what is written: for the first enumerator
  the output does not contain \<^verbatim>\<open>First\<close>.\<close>

theorem print_arg_label_counterexample:
  "cmd \<lparr>value = 0, sub_value = CHR ''a'', cmd = OP1\<rparr> = OP1
   \<and> \<not> sublist ''First''
        (written (print_arg True (\<lparr>value = 0, sub_value = CHR ''a'', cmd = OP1\<rparr>, [])))"
  by (simp add: print_arg_def OP1_def show_int_def char_to_int_def show_nat.simps sublist_code)

subsection \<open>The command check\<close>

text \<open>
  Claim C3, as amended. In the command step of \<^verbatim>\<open>parse_arg\<close>, with \<^verbatim>\<open>cmd_raw\<close> pointing to a
  string, the program writes \<^verbatim>\<open>Invalid cmd\<close> and ends with status 1 exactly when the scan
  converts the string to a number other than 0, 1, 2 and 3. A string with no number to
  convert leaves \<^verbatim>\<open>cmd\<close> at its initial 0 and is accepted as \<^verbatim>\<open>OP1\<close>.
\<close>

theorem invalid_cmd_iff:
  assumes "argv_at argv c out = Inr tok"
  shows "(parse_arg_cmd argv (a, c, out) = Inl (Exit (out @ ''Invalid cmd'') 1))
           = (\<exists>n. sscanf_ld tok = Some n \<and> n \<notin> {0, 1, 2, 3})
       \<and> (sscanf_ld tok = None \<longrightarrow> parse_arg_cmd argv (a, c, out) = Inr (a\<lparr>cmd := OP1\<rparr>, out))"
  using assms by (auto simp: parse_arg_cmd_def Let_def split: option.splits)

theorem invalid_cmd_iff_witness:
  "parse_arg_cmd [Some ''9''] (\<lparr>value = 0, sub_value = CHR ''a'', cmd = 0\<rparr>, 0, [])
     = Inl (Exit ''Invalid cmd'' 1)
   \<and> parse_arg_cmd [Some ''x''] (\<lparr>value = 0, sub_value = CHR ''a'', cmd = 7\<rparr>, 0, [])
     = Inr (\<lparr>value = 0, sub_value = CHR ''a'', cmd = OP1\<rparr>, [])"
proof -
  have s9: "sscanf_ld ''9'' = Some 9"
    by (simp add: sscanf_ld_def scan_decimal_def isspace_def isdigit_def digit_val_def)
  have sx: "sscanf_ld ''x'' = None"
    by (simp add: sscanf_ld_def scan_decimal_def isspace_def isdigit_def)
  have r9: "argv_at [Some ''9''] 0 [] = Inr ''9''" by (simp add: argv_at_def)
  have rx: "argv_at [Some ''x''] 0 [] = Inr ''x''" by (simp add: argv_at_def)
  from invalid_cmd_iff [OF r9, of "\<lparr>value = 0, sub_value = CHR ''a'', cmd = 0\<rparr>"]
    invalid_cmd_iff [OF rx, of "\<lparr>value = 0, sub_value = CHR ''a'', cmd = 7\<rparr>"] s9 sx
  show ?thesis by simp
qed

text \<open>
  The claim as it was written fails on each of these. A final token \<^verbatim>\<open>9\<close> alone meets the
  arity check first, and after a two-character token the length check; the output is
  that diagnostic, not \<^verbatim>\<open>Invalid cmd\<close>. With the arguments \<^verbatim>\<open>a 9\<close> the command step is
  handed the null pointer that ends \<^verbatim>\<open>argv\<close>. Handed the text \<^verbatim>\<open>x\<close> the step returns \<^verbatim>\<open>OP1\<close>,
  and handed \<^verbatim>\<open>1x\<close> it returns \<^verbatim>\<open>OP2\<close>.
\<close>

theorem invalid_cmd_counterexample:
  "last [''prog'', ''9''] \<notin> {''0'', ''1'', ''2'', ''3''}
   \<and> run True \<lparr>value = 0, sub_value = CHR 0x00, cmd = 0\<rparr> [''prog'', ''9'']
       = Exit ''Need 2 or 3 args'' 1
   \<and> \<not> sublist ''Invalid cmd''
        (stdout_of (run True \<lparr>value = 0, sub_value = CHR 0x00, cmd = 0\<rparr> [''prog'', ''9'']))
   \<and> run True \<lparr>value = 0, sub_value = CHR 0x00, cmd = 0\<rparr> [''prog'', ''bb'', ''9'']
       = Exit ''arg sub_value need to be size 1'' 1
   \<and> run True \<lparr>value = 0, sub_value = CHR 0x00, cmd = 0\<rparr> [''prog'', ''a'', ''9'']
       = Fault [] (Null_Deref 3)
   \<and> parse_arg_cmd [Some ''x''] (\<lparr>value = 0, sub_value = CHR ''a'', cmd = 7\<rparr>, 0, [])
       = Inr (\<lparr>value = 0, sub_value = CHR ''a'', cmd = OP1\<rparr>, [])
   \<and> parse_arg_cmd [Some ''1x''] (\<lparr>value = 0, sub_value = CHR ''a'', cmd = 7\<rparr>, 0, [])
       = Inr (\<lparr>value = 0, sub_value = CHR ''a'', cmd = OP2\<rparr>, [])"
  by (simp add: run_def main_def parse_arg_def parse_arg_value_def parse_arg_sub_value_def
      parse_arg_cmd_def std_argv_def argv_at_def strlen_def first_char_def sublist_code
      sscanf_ld_def scan_decimal_def isspace_def isdigit_def digit_val_def)

subsection \<open>The scenario 5 a 0\<close>

text \<open>
  Claim C4, as amended. On the arguments \<^verbatim>\<open>5 a 0\<close> the value step of \<^verbatim>\<open>parse_arg\<close> scans the
  value 5, and the token \<^verbatim>\<open>a\<close> has the length 1 that the check asks for. For the record
  these arguments describe (value 5, sub\_value \<^verbatim>\<open>a\<close>, command \<^verbatim>\<open>OP1\<close>) \<^verbatim>\<open>print_arg\<close> writes
  \<^verbatim>\<open>value: 5sub_value 97OP1\<close> and returns; the output contains \<^verbatim>\<open>value: 5\<close>, \<^verbatim>\<open>sub_value 97\<close>
  and the label \<^verbatim>\<open>OP1\<close>.
\<close>

theorem scenario_5_a_0:
  "parse_arg_value 4 (std_argv [''prog'', ''5'', ''a'', ''0'']) (a0, []) = Inr (a0\<lparr>value := 5\<rparr>, 2, [])
   \<and> strlen ''a'' = 1
   \<and> print_arg sg (\<lparr>value = 5, sub_value = CHR ''a'', cmd = OP1\<rparr>, [])
       = Inr (\<lparr>value = 5, sub_value = CHR ''a'', cmd = OP1\<rparr>, ''value: 5sub_value 97OP1'')
   \<and> sublist ''value: 5'' ''value: 5sub_value 97OP1''
   \<and> sublist ''sub_value 97'' ''value: 5sub_value 97OP1''
   \<and> sublist ''OP1'' ''value: 5sub_value 97OP1''"
proof -
  have s5: "sscanf_d ''5'' = Some 5"
    by (simp add: sscanf_d_def sscanf_ld_def scan_decimal_def isspace_def isdigit_def digit_val_def)
  have "parse_arg_value 4 (std_argv [''prog'', ''5'', ''a'', ''0'']) (a0, [])
          = Inr (a0\<lparr>value := 5\<rparr>, 2, [])"
    by (simp add: parse_arg_value_def std_argv_def argv_at_def s5)
  moreover have "strlen ''a'' = 1" by (simp add: strlen_def)
  moreover have "print_arg sg (\<lparr>value = 5, sub_value = CHR ''a'', cmd = OP1\<rparr>, [])
       = Inr (\<lparr>value = 5, sub_value = CHR ''a'', cmd = OP1\<rparr>, ''value: 5sub_value 97OP1'')"
    by (simp add: print_arg_def OP1_def show_int_def char_to_int_def show_nat.simps)
  moreover have "sublist ''value: 5'' ''value: 5sub_value 97OP1''"
    by (simp add: sublist_code)
  moreover have "sublist ''sub_value 97'' ''value: 5sub_value 97OP1''"
    by (simp add: sublist_code)
  moreover have "sublist ''OP1'' ''value: 5sub_value 97OP1''"
    by (simp add: sublist_code)
  ultimately show ?thesis by blast
qed

text \<open>The program itself, started on these arguments, does not exit with status 0: it ends
  in the fault at element 4 of \<^verbatim>\<open>argv\<close>. And what \<^verbatim>\<open>print_arg\<close> writes for the record does
  not contain \<^verbatim>\<open>First\<close>.\<close>

theorem scenario_5_a_0_counterexample:
  "run True \<lparr>value = 0, sub_value = CHR 0x00, cmd = 0\<rparr> [''prog'', ''5'', ''a'', ''0'']
     = Fault [] (Null_Deref 4)
   \<and> exit_status (run True \<lparr>value = 0, sub_value = CHR 0x00, cmd = 0\<rparr>
        [''prog'', ''5'', ''a'', ''0'']) \<noteq> Some 0
   \<and> \<not> sublist ''First''
        (written (print_arg True (\<lparr>value = 5, sub_value = CHR ''a'', cmd = OP1\<rparr>, [])))"
  by (simp add: run_def main_def parse_arg_def parse_arg_value_def parse_arg_sub_value_def
      parse_arg_cmd_def std_argv_def argv_at_def strlen_def first_char_def sublist_code
      print_arg_def OP1_def show_int_def char_to_int_def show_nat.simps)

subsection \<open>The arity check\<close>

text \<open>
  Claim C5. Whenever the number of arguments after the program name, \<open>argc - 1\<close>, is
  neither 2 nor 3, \<^verbatim>\<open>parse_arg\<close> writes the arity diagnostic and ends the process with
  status 1 without returning a record, so the whole program writes just
  \<^verbatim>\<open>Need 2 or 3 args\<close> and exits with status 1.
\<close>

theorem parse_arg_wrong_arity:
  assumes "argc - 1 \<noteq> 2" and "argc - 1 \<noteq> 3"
  shows "parse_arg a0 argc argv out = Inl (Exit (out @ ''Need 2 or 3 args'') 1)
       \<and> main sg a0 argc argv = Exit ''Need 2 or 3 args'' 1"
  using assms by (simp add: parse_arg_def main_def)

theorem parse_arg_wrong_arity_witness:
  "(5::int) - 1 \<noteq> 2 \<and> (5::int) - 1 \<noteq> 3
   \<and> run True \<lparr>value = 0, sub_value = CHR 0x00, cmd = 0\<rparr> [''prog'', ''1'', ''2'', ''a'', ''3'']
       = Exit ''Need 2 or 3 args'' 1"
  using parse_arg_wrong_arity [of 5 "\<lparr>value = 0, sub_value = CHR 0x00, cmd = 0\<rparr>"
      "std_argv [''prog'', ''1'', ''2'', ''a'', ''3'']" "[]" True]
  by (simp add: run_def)

subsection \<open>The length check\<close>

text \<open>
  Claim C6. When the program is started with 2 or 3 arguments after its name and the token
  in the sub\_value position (the one before the last) does not have length 1, it writes
  just \<^verbatim>\<open>arg sub_value need to be size 1\<close> and exits with status 1.
\<close>

theorem sub_value_wrong_length:
  assumes "length toks = 3 \<or> length toks = 4"
      and "strlen (toks ! (length toks - 2)) \<noteq> 1"
  shows "run sg a0 toks = Exit ''arg sub_value need to be size 1'' 1"
  using assms(1)
proof
  assume len: "length toks = 3"
  with assms(2) have "strlen (toks ! 1) \<noteq> 1" by simp
  with std_argv_3(1) [OF len]
  have "parse_arg_sub_value (std_argv toks) (a0\<lparr>value := 0\<rparr>, 1, [])
          = Inl (Exit ([] @ ''arg sub_value need to be size 1'') 1)"
    by (rule parse_arg_sub_value_bad)
  with len show ?thesis
    by (simp add: run_def main_def parse_arg_def parse_arg_value_3)
next
  assume len: "length toks = 4"
  with assms(2) have "strlen (toks ! 2) \<noteq> 1" by simp
  with std_argv_4(2) [OF len]
  have "parse_arg_sub_value (std_argv toks) (a, 2, [])
          = Inl (Exit ([] @ ''arg sub_value need to be size 1'') 1)" for a
    by (rule parse_arg_sub_value_bad)
  with len show ?thesis
    by (simp add: run_def main_def parse_arg_def parse_arg_value_4 [OF std_argv_4(1) [OF len]])
qed

theorem sub_value_wrong_length_witness:
  "run True \<lparr>value = 0, sub_value = CHR 0x00, cmd = 0\<rparr> [''prog'', ''bb'', ''2'']
     = Exit ''arg sub_value need to be size 1'' 1"
  using sub_value_wrong_length [of "[''prog'', ''bb'', ''2'']" True
      "\<lparr>value = 0, sub_value = CHR 0x00, cmd = 0\<rparr>"]
  by (simp add: strlen_def)

subsection \<open>The value field and its segment\<close>

text \<open>
  Claim C7. With \<^verbatim>\<open>argc = 3\<close>, that is two arguments after the program name, every record
  that \<^verbatim>\<open>parse_arg\<close> returns has \<^verbatim>\<open>value\<close> 0, whatever the uninitialised record held, and
  nothing the program writes then contains \<^verbatim>\<open>value: \<close>; the value step is where the field is
  set to 0. What \<^verbatim>\<open>print_arg\<close> writes begins with \<^verbatim>\<open>value: \<close> and the number when \<^verbatim>\<open>value\<close>
  is not 0, and does not contain \<^verbatim>\<open>value: \<close> at all when \<^verbatim>\<open>value\<close> is 0.
\<close>

theorem value_default_and_segment:
  "(parse_arg a0 3 argv out = Inr (a', out') \<longrightarrow> value a' = 0)
   \<and> \<not> sublist ''value: '' (stdout_of (main sg a0 3 argv))
   \<and> parse_arg_value 3 argv (a0, out) = Inr (a0\<lparr>value := 0\<rparr>, 1, out)
   \<and> (value a \<noteq> 0 \<longrightarrow>
        prefix (out @ ''value: '' @ show_int (sint (value a))) (written (print_arg sg (a, out))))
   \<and> (value a = 0 \<longrightarrow>
        \<not> sublist ''value: '' (drop (length out) (written (print_arg sg (a, out)))))"
proof (intro conjI impI)
  assume "parse_arg a0 3 argv out = Inr (a', out')"
  then show "value a' = 0" by (simp add: parse_arg_3_returns)
next
  show "\<not> sublist ''value: '' (stdout_of (main sg a0 3 argv))"
    using main_3_no_colon [of sg a0 argv] colon_in_value_segment by blast
next
  show "parse_arg_value 3 argv (a0, out) = Inr (a0\<lparr>value := 0\<rparr>, 1, out)"
    by (simp add: parse_arg_value_def)
next
  assume "value a \<noteq> 0"
  then show "prefix (out @ ''value: '' @ show_int (sint (value a)))
               (written (print_arg sg (a, out)))"
    by (simp add: written_print_arg prefix_def)
next
  assume z: "value a = 0"
  let ?rest = "drop (length out) (written (print_arg sg (a, out)))"
  have "CHR '':'' \<notin> set ?rest"
    using z show_int_no_colon [of "char_to_int sg (sub_value a)"]
    by (simp add: written_print_arg)
  then show "\<not> sublist ''value: '' ?rest"
    using colon_in_value_segment by blast
qed

theorem value_default_and_segment_witness:
  "parse_arg \<lparr>value = 7, sub_value = CHR 0x00, cmd = 0\<rparr> 3
       [Some ''prog'', Some ''a'', Some ''b'', Some ''1''] []
     = Inr (\<lparr>value = 0, sub_value = CHR ''b'', cmd = OP2\<rparr>, [])
   \<and> value \<lparr>value = 0, sub_value = CHR ''b'', cmd = OP2\<rparr> = 0
   \<and> main True \<lparr>value = 7, sub_value = CHR 0x00, cmd = 0\<rparr> 3
       [Some ''prog'', Some ''a'', Some ''b'', Some ''1''] = Exit ''sub_value 98OP2'' 0
   \<and> \<not> sublist ''value: '' (stdout_of (main True \<lparr>value = 7, sub_value = CHR 0x00, cmd = 0\<rparr> 3
       [Some ''prog'', Some ''a'', Some ''b'', Some ''1'']))
   \<and> parse_arg_value 3 (std_argv [''prog'', ''a'', ''1''])
       (\<lparr>value = 7, sub_value = CHR 0x00, cmd = 0\<rparr>, [])
     = Inr (\<lparr>value = 0, sub_value = CHR 0x00, cmd = 0\<rparr>, 1, [])
   \<and> prefix ''value: 5''
        (written (print_arg True (\<lparr>value = 5, sub_value = CHR ''a'', cmd = OP1\<rparr>, [])))
   \<and> \<not> sublist ''value: ''
        (written (print_arg True (\<lparr>value = 0, sub_value = CHR ''a'', cmd = OP2\<rparr>, [])))"
proof -
  let ?g = "\<lparr>value = 7, sub_value = CHR 0x00, cmd = 0\<rparr>"
  let ?arr = "[Some ''prog'', Some ''a'', Some ''b'', Some ''1'']"
  have p: "parse_arg ?g 3 ?arr [] = Inr (\<lparr>value = 0, sub_value = CHR ''b'', cmd = OP2\<rparr>, [])"
    by (simp add: parse_arg_def parse_arg_value_def parse_arg_sub_value_def parse_arg_cmd_def
        argv_at_def strlen_def first_char_def sscanf_ld_def scan_decimal_def isspace_def
        isdigit_def digit_val_def)
  have m: "main True ?g 3 ?arr = Exit ''sub_value 98OP2'' 0"
    by (simp add: main_def p print_arg_def OP1_def OP2_def show_int_def char_to_int_def
        show_nat.simps)
  note t1 = value_default_and_segment [where ?a0.0 = ?g and argv = ?arr and out = "[]"
      and a' = "\<lparr>value = 0, sub_value = CHR ''b'', cmd = OP2\<rparr>" and out' = "[]"
      and sg = True and a = "\<lparr>value = 5, sub_value = CHR ''a'', cmd = OP1\<rparr>"]
  note t2 = value_default_and_segment [where ?a0.0 = ?g and argv = "std_argv [''prog'', ''a'', ''1'']"
      and out = "[]" and a' = ?g and out' = "[]"
      and sg = True and a = "\<lparr>value = 0, sub_value = CHR ''a'', cmd = OP2\<rparr>"]
  from t1 t2 p m show ?thesis
    by (simp add: show_int_def show_nat.simps)
qed

subsection \<open>A value token with no number\<close>

text \<open>
  Claim C8 says that a first token with no number in it gives the value 0. On the arguments
  \<^verbatim>\<open>x a 0\<close> the scan of \<^verbatim>\<open>x\<close> stores nothing, and \<^verbatim>\<open>args.value\<close> was never initialised: the
  value step hands on the record exactly as it found it, so the field holds whatever the
  memory held, 7 when that was 7. (The local \<^verbatim>\<open>cmd\<close> of the command step is set to 0
  before its scan; \<^verbatim>\<open>args.value\<close> is not.)
\<close>

theorem unscanned_value_keeps_garbage:
  "sscanf_d ''x'' = None
   \<and> parse_arg_value 4 (std_argv [''prog'', ''x'', ''a'', ''0'']) (a0, out) = Inr (a0, 2, out)
   \<and> value (fst (projr (parse_arg_value 4 (std_argv [''prog'', ''x'', ''a'', ''0''])
        (\<lparr>value = 7, sub_value = CHR 0x00, cmd = 0\<rparr>, [])))) = 7"
proof -
  have sc: "sscanf_d ''x'' = None"
    by (simp add: sscanf_d_def sscanf_ld_def scan_decimal_def isspace_def isdigit_def)
  have "parse_arg_value 4 (std_argv [''prog'', ''x'', ''a'', ''0'']) (b, out') = Inr (b, 2, out')"
    for b out'
    by (simp add: parse_arg_value_def std_argv_def argv_at_def sc)
  with sc show ?thesis by simp
qed

subsection \<open>The command token is read one element too far\<close>

text \<open>
  Claim C9. When the program is started with 2 or 3 arguments after its name and the token
  in the sub\_value position has length 1, the steps before the command step leave the
  counter at \<^verbatim>\<open>argc\<close>: the command token is read from \<^verbatim>\<open>argv[argc]\<close>, the null pointer, and
  \<^verbatim>\<open>parse_arg\<close>, and with it the program, ends in the fault of reading through it. No such run
  ends any other way.
\<close>

theorem cmd_token_is_null:
  assumes "length toks = 3 \<or> length toks = 4"
      and "strlen (toks ! (length toks - 2)) = 1"
  shows "(\<exists>a. (case parse_arg_value (int (length toks)) (std_argv toks) (a0, out) of
                 Inl e \<Rightarrow> Inl e
               | Inr s1 \<Rightarrow> parse_arg_sub_value (std_argv toks) s1) = Inr (a, length toks, out))
       \<and> parse_arg a0 (int (length toks)) (std_argv toks) out
           = Inl (Fault out (Null_Deref (length toks)))
       \<and> run sg a0 toks = Fault [] (Null_Deref (length toks))"
  using assms(1)
proof
  assume len: "length toks = 3"
  note rd = std_argv_3 [OF len]
  from assms(2) len have one: "strlen (toks ! 1) = 1" by simp
  have sv: "parse_arg_sub_value (std_argv toks) (a, 1, out')
              = Inr (a\<lparr>sub_value := first_char (toks ! 2)\<rparr>, 3, out')" for a out'
    by (rule parse_arg_sub_value_ok [OF rd(1) one rd(2)]) simp_all
  have cm: "parse_arg_cmd (std_argv toks) (a, 3, out') = Inl (Fault out' (Null_Deref 3))"
    for a out'
    by (rule parse_arg_cmd_fault) (rule rd(3))
  from len sv cm show ?thesis
    by (simp add: run_def main_def parse_arg_def parse_arg_value_3)
next
  assume len: "length toks = 4"
  note rd = std_argv_4 [OF len]
  from assms(2) len have one: "strlen (toks ! 2) = 1" by simp
  have sv: "parse_arg_sub_value (std_argv toks) (a, 2, out')
              = Inr (a\<lparr>sub_value := first_char (toks ! 3)\<rparr>, 4, out')" for a out'
    by (rule parse_arg_sub_value_ok [OF rd(2) one rd(3)]) simp_all
  have cm: "parse_arg_cmd (std_argv toks) (a, 4, out') = Inl (Fault out' (Null_Deref 4))"
    for a out'
    by (rule parse_arg_cmd_fault) (rule rd(4))
  from len sv cm show ?thesis
    by (simp add: run_def main_def parse_arg_def parse_arg_value_4 [OF rd(1)])
qed

theorem cmd_token_is_null_witness:
  "run True \<lparr>value = 0, sub_value = CHR 0x00, cmd = 0\<rparr> [''prog'', ''a'', ''1'']
     = Fault [] (Null_Deref 3)"
  using cmd_token_is_null [of "[''prog'', ''a'', ''1'']"
      "\<lparr>value = 0, sub_value = CHR 0x00, cmd = 0\<rparr>" "[]" True]
  by (simp add: strlen_def)

subsection \<open>print\_arg leaves the record alone\<close>

text \<open>
  Claim C10. When \<^verbatim>\<open>print_arg\<close> returns, the record it was given holds the same \<^verbatim>\<open>value\<close>,
  \<^verbatim>\<open>sub_value\<close> and \<^verbatim>\<open>cmd\<close> as before the call.
\<close>

theorem print_arg_frame:
  assumes "print_arg sg (a, out) = Inr (a', out')"
  shows "value a' = value a \<and> sub_value a' = sub_value a \<and> cmd a' = cmd a"
  using assms by (auto simp: print_arg_def Let_def split: if_splits)

theorem print_arg_frame_witness:
  "print_arg True (\<lparr>value = 5, sub_value = CHR ''a'', cmd = OP1\<rparr>, [])
     = Inr (\<lparr>value = 5, sub_value = CHR ''a'', cmd = OP1\<rparr>, ''value: 5sub_value 97OP1'')
   \<and> value \<lparr>value = 5, sub_value = CHR ''a'', cmd = OP1\<rparr> = 5"
proof -
  have ret: "print_arg True (\<lparr>value = 5, sub_value = CHR ''a'', cmd = OP1\<rparr>, [])
     = Inr (\<lparr>value = 5, sub_value = CHR ''a'', cmd = OP1\<rparr>, ''value: 5sub_value 97OP1'')"
    by (simp add: print_arg_def OP1_def show_int_def char_to_int_def show_nat.simps)
  from print_arg_frame [OF ret] ret show ?thesis by simp
qed

end
